theory Spec2Isabelle
  imports Complex_Main "HOL-Library.Word"
begin

section \<open>JavaScript values\<close>

text \<open>
  A JavaScript string is a sequence of UTF-16 code units. The regular expressions of
  \<^verbatim>\<open>detectLanguage\<close> carry no \<^verbatim>\<open>u\<close> flag, so they test single code units,
  and \<^verbatim>\<open>===\<close> on strings compares code units.
\<close>

type_synonym code_unit = "16 word"
type_synonym jsstring = "code_unit list"

text \<open>A string literal of the source (all of them are ASCII).\<close>

definition lit :: "string \<Rightarrow> jsstring" where
  "lit s = map (\<lambda>c. of_nat (of_char c)) s"

text \<open>
  The values the server handles at run time: what \<^verbatim>\<open>response.json()\<close> can produce,
  and \<^verbatim>\<open>undefined\<close>. TypeScript types the parsed data as \<^verbatim>\<open>any\<close>, so nothing
  constrains its shape. A number is the value of the parsed double; the code only compares
  one to \<^verbatim>\<open>200\<close> and tests one for truthiness. An object is the list of its own
  properties; the first binding of a key is the property's value.
\<close>

datatype jsval =
    JUndefined
  | JNull
  | JBool bool
  | JNum real
  | JStr jsstring
  | JArr "jsval list"
  | JObj "(jsstring \<times> jsval) list"

text \<open>\<^verbatim>\<open>ToBoolean\<close>: what \<^verbatim>\<open>if (v)\<close>, \<^verbatim>\<open>!v\<close> and \<^verbatim>\<open>v && w\<close> test.\<close>

fun truthy :: "jsval \<Rightarrow> bool" where
  "truthy JUndefined = False"
| "truthy JNull = False"
| "truthy (JBool b) = b"
| "truthy (JNum n) = (n \<noteq> 0)"
| "truthy (JStr s) = (s \<noteq> [])"
| "truthy (JArr xs) = True"
| "truthy (JObj kvs) = True"

text \<open>
  Property access \<^verbatim>\<open>v.k\<close> and \<^verbatim>\<open>v[0]\<close> (the key \<^verbatim>\<open>"0"\<close>). \<open>None\<close> is the
  \<^verbatim>\<open>TypeError\<close> raised on \<^verbatim>\<open>undefined\<close> and \<^verbatim>\<open>null\<close>. The keys the source
  reads (\<^verbatim>\<open>data\<close>, \<^verbatim>\<open>translations\<close>, \<^verbatim>\<open>0\<close>, \<^verbatim>\<open>translatedText\<close>, \<^verbatim>\<open>text\<close>,
  \<^verbatim>\<open>translation\<close>, \<^verbatim>\<open>responseStatus\<close>, \<^verbatim>\<open>responseData\<close>, \<^verbatim>\<open>detections\<close>,
  \<^verbatim>\<open>language\<close>) name no inherited property of any prototype, so a primitive, array
  or string answers \<^verbatim>\<open>undefined\<close> for all of them but the index \<^verbatim>\<open>0\<close>.
\<close>

fun get_prop :: "jsval \<Rightarrow> jsstring \<Rightarrow> jsval option" where
  "get_prop JUndefined k = None"
| "get_prop JNull k = None"
| "get_prop (JObj kvs) k = Some (case map_of kvs k of Some v \<Rightarrow> v | None \<Rightarrow> JUndefined)"
| "get_prop (JArr xs) k =
     Some (if k = lit ''0'' then (case xs of [] \<Rightarrow> JUndefined | x # _ \<Rightarrow> x) else JUndefined)"
| "get_prop (JStr s) k =
     Some (if k = lit ''0'' then (case s of [] \<Rightarrow> JUndefined | c # _ \<Rightarrow> JStr [c]) else JUndefined)"
| "get_prop (JBool b) k = Some JUndefined"
| "get_prop (JNum n) k = Some JUndefined"


text \<open>
  Whether \<^verbatim>\<open>`${v}`\<close> raises. \<^verbatim>\<open>ToString\<close> of an object parsed from JSON calls
  \<^verbatim>\<open>Object.prototype.toString\<close> unless an own property \<^verbatim>\<open>toString\<close> (never a
  function in parsed JSON) hides it; then \<^verbatim>\<open>valueOf\<close> yields no primitive either and a
  \<^verbatim>\<open>TypeError\<close> is raised. An array joins the strings of its elements.
\<close>

fun to_string_throws :: "jsval \<Rightarrow> bool" where
  "to_string_throws (JObj kvs) = (map_of kvs (lit ''toString'') \<noteq> None)"
| "to_string_throws (JArr xs) = list_ex to_string_throws xs"
| "to_string_throws JUndefined = False"
| "to_string_throws JNull = False"
| "to_string_throws (JBool b) = False"
| "to_string_throws (JNum n) = False"
| "to_string_throws (JStr s) = False"

section \<open>The in-memory store (\<^verbatim>\<open>server/storage.ts\<close>)\<close>

text \<open>
  \<^verbatim>\<open>InsertTranslation\<close> and \<^verbatim>\<open>Translation\<close> of the shared schema. The field
  \<^verbatim>\<open>id\<close> is \<open>rec_id\<close> here; \<^verbatim>\<open>createdAt\<close> is the \<^verbatim>\<open>Date\<close>'s
  \<^verbatim>\<open>getTime()\<close>, in milliseconds. \<^verbatim>\<open>translatedText\<close> holds whatever
  \<^verbatim>\<open>translateText\<close> returned.
\<close>

record insert_translation =
  sourceText :: jsstring
  translatedText :: jsval
  sourceLanguage :: jsstring
  targetLanguage :: jsstring

record translation = insert_translation +
  rec_id :: nat
  createdAt :: int

text \<open>
  \<^verbatim>\<open>MemStorage\<close>: a \<^verbatim>\<open>Map\<close> iterates in insertion order, so it is an association
  list in that order. The counter is a JavaScript number, exact on the integers a store
  that fits in memory can reach. The user map and its counter share nothing with the
  translations and are left out.
\<close>

record mem_storage =
  translation_map :: "(nat \<times> translation) list"
  currentTranslationId :: nat

definition new_storage :: mem_storage where
  "new_storage = \<lparr>translation_map = [], currentTranslationId = 1\<rparr>"

text \<open>\<^verbatim>\<open>Map.prototype.set\<close>: a present key keeps its place, a new key goes last.\<close>

fun map_set :: "'k \<Rightarrow> 'v \<Rightarrow> ('k \<times> 'v) list \<Rightarrow> ('k \<times> 'v) list" where
  "map_set k v [] = [(k, v)]"
| "map_set k v ((k', v') # m) = (if k' = k then (k, v) # m else (k', v') # map_set k v m)"

text \<open>\<^verbatim>\<open>createTranslation\<close>; \<open>now\<close> is the time \<^verbatim>\<open>new Date()\<close> reads.\<close>

definition createTranslation ::
  "insert_translation \<Rightarrow> int \<Rightarrow> mem_storage \<Rightarrow> translation \<times> mem_storage" where
  "createTranslation insertTranslation now s =
     (let ident = currentTranslationId s;
          translation = insert_translation.extend insertTranslation
            (translation.fields ident now)
      in (translation,
          \<lparr>translation_map = map_set ident translation (translation_map s),
           currentTranslationId = ident + 1\<rparr>))"

text \<open>
  \<^verbatim>\<open>Array.prototype.sort\<close> with a comparison function is a stable sort: \<open>a\<close> comes
  before \<open>b\<close> when \<open>compareFn a b < 0\<close>, and elements that compare equal keep their
  order. Insertion from the right is such a sort.
\<close>

primrec insert_by :: "('a \<Rightarrow> 'a \<Rightarrow> int) \<Rightarrow> 'a \<Rightarrow> 'a list \<Rightarrow> 'a list" where
  "insert_by compareFn x [] = [x]"
| "insert_by compareFn x (y # ys) =
     (if compareFn x y \<le> 0 then x # y # ys else y # insert_by compareFn x ys)"

definition array_sort :: "('a \<Rightarrow> 'a \<Rightarrow> int) \<Rightarrow> 'a list \<Rightarrow> 'a list" where
  "array_sort compareFn xs = foldr (insert_by compareFn) xs []"

text \<open>
  \<^verbatim>\<open>xs.slice(0, stop)\<close> for an integer \<open>stop\<close>: a negative one counts from
  the end of the array.
\<close>

definition slice0 :: "int \<Rightarrow> 'a list \<Rightarrow> 'a list" where
  "slice0 stop xs =
     (if stop < 0 then take (nat (max (int (length xs) + stop) 0)) xs else take (nat stop) xs)"

text \<open>The comparison function of \<^verbatim>\<open>getRecentTranslations\<close>.\<close>

definition by_createdAt_desc :: "translation \<Rightarrow> translation \<Rightarrow> int" where
  "by_createdAt_desc a b = createdAt b - createdAt a"

definition getRecentTranslations :: "mem_storage \<Rightarrow> int \<Rightarrow> translation list" where
  "getRecentTranslations s limit =
     (let allTranslations = map snd (translation_map s)
      in slice0 limit (array_sort by_createdAt_desc allTranslations))"

text \<open>The store after a sequence of \<^verbatim>\<open>createTranslation\<close> calls, with the records returned.\<close>

fun create_all ::
  "(insert_translation \<times> int) list \<Rightarrow> mem_storage \<Rightarrow> translation list \<times> mem_storage" where
  "create_all [] s = ([], s)"
| "create_all ((ins, now) # calls) s =
     (let (t, s') = createTranslation ins now s;
          (ts, s'') = create_all calls s'
      in (t # ts, s''))"

section \<open>The heuristic of \<^verbatim>\<open>detectLanguage\<close>\<close>

text \<open>
  A character class is a list of inclusive ranges; \<^verbatim>\<open>/[...]/.test(text)\<close> scans the
  text for one code unit of the class.
\<close>

fun in_class :: "(code_unit \<times> code_unit) list \<Rightarrow> code_unit \<Rightarrow> bool" where
  "in_class [] c = False"
| "in_class ((lo, hi) # rs) c = ((lo \<le> c \<and> c \<le> hi) \<or> in_class rs c)"

fun regex_test :: "(code_unit \<times> code_unit) list \<Rightarrow> jsstring \<Rightarrow> bool" where
  "regex_test cls [] = False"
| "regex_test cls (c # cs) = (in_class cls c \<or> regex_test cls cs)"

definition latin_class :: "(code_unit \<times> code_unit) list" where
  "latin_class = [(0x61, 0x7A), (0x41, 0x5A)]"

definition cyrillic_class :: "(code_unit \<times> code_unit) list" where
  "cyrillic_class = [(0x0400, 0x04FF)]"

definition arabic_class :: "(code_unit \<times> code_unit) list" where
  "arabic_class = [(0x0600, 0x06FF)]"

definition chinese_class :: "(code_unit \<times> code_unit) list" where
  "chinese_class = [(0x4E00, 0x9FFF)]"

definition japanese_class :: "(code_unit \<times> code_unit) list" where
  "japanese_class = [(0x3040, 0x309F), (0x30A0, 0x30FF)]"

definition korean_class :: "(code_unit \<times> code_unit) list" where
  "korean_class = [(0xAC00, 0xD7AF)]"

text \<open>
  The \<^verbatim>\<open>try\<close> block that ends \<^verbatim>\<open>detectLanguage\<close>. Nothing in it can raise, so its
  \<^verbatim>\<open>catch\<close> is never entered.
\<close>

definition heuristic_detect :: "jsstring \<Rightarrow> jsstring" where
  "heuristic_detect text =
     (let hasLatin = regex_test latin_class text;
          hasCyrillic = regex_test cyrillic_class text;
          hasArabic = regex_test arabic_class text;
          hasChinese = regex_test chinese_class text;
          hasJapanese = regex_test japanese_class text;
          hasKorean = regex_test korean_class text
      in if hasChinese then lit ''zh''
         else if hasJapanese then lit ''ja''
         else if hasKorean then lit ''ko''
         else if hasCyrillic then lit ''ru''
         else if hasArabic then lit ''ar''
         else if hasLatin then lit ''en''
         else lit ''en'')"

section \<open>The runtime\<close>

text \<open>
  What the server code reads from outside itself: the two environment variables, the
  outcome of each \<^verbatim>\<open>fetch\<close>, and the two built-ins \<^verbatim>\<open>String.prototype.toLowerCase\<close>
  and \<^verbatim>\<open>encodeURIComponent\<close> (which raises \<^verbatim>\<open>URIError\<close>, here \<open>None\<close>, on a lone
  surrogate).
\<close>

text \<open>
  A request as \<^verbatim>\<open>fetch(url, init)\<close> receives it. The body is the value handed to
  \<^verbatim>\<open>JSON.stringify\<close>.
\<close>

record request =
  req_url :: jsstring
  req_method :: "jsstring option"
  req_headers :: "(jsstring \<times> jsstring) list"
  req_body :: "jsval option"

text \<open>
  \<^verbatim>\<open>fetch\<close> rejects (\<open>NetworkError\<close>) or resolves to a response, of which the code
  reads \<^verbatim>\<open>response.ok\<close> and \<^verbatim>\<open>await response.json()\<close>; the latter is \<open>None\<close>
  when the body is no JSON and the promise rejects.
\<close>

datatype fetch_result = NetworkError | Response bool "jsval option"

record runtime =
  GOOGLE_TRANSLATE_API_KEY :: "jsstring option"
  AZURE_TRANSLATOR_KEY :: "jsstring option"
  fetch :: "request \<Rightarrow> fetch_result"
  toLowerCase :: "jsstring \<Rightarrow> jsstring"
  encodeURIComponent :: "jsstring \<Rightarrow> jsstring option"

section \<open>The resolver (\<^verbatim>\<open>translateText\<close>)\<close>

datatype provider = Google | Microsoft | Lingva | MyMemory

text \<open>The requests issued, in order, each with the attempt that issued it.\<close>

type_synonym trace = "(provider \<times> request) list"

text \<open>\<^verbatim>\<open>throw new Error("All translation services failed")\<close>.\<close>

datatype error = AllTranslationServicesFailed

text \<open>
  The shape shared by the four attempts:
  \<^verbatim>\<open>try { const response = await fetch(..); if (response.ok) { const data = await
  response.json(); .. } } catch (error) { console.error(..) }\<close>.
  \<open>extract data\<close> is \<open>Some v\<close> when the block returns \<open>v\<close> and \<open>None\<close> when it
  falls through or raises; a rejected \<^verbatim>\<open>fetch\<close> or \<^verbatim>\<open>json()\<close> is caught alike.
\<close>

definition try_fetch :: "runtime \<Rightarrow> request \<Rightarrow> (jsval \<Rightarrow> jsval option) \<Rightarrow> jsval option" where
  "try_fetch w r extract =
     (case fetch w r of
        NetworkError \<Rightarrow> None
      | Response ok payload \<Rightarrow>
          if ok then (case payload of None \<Rightarrow> None | Some data \<Rightarrow> extract data)
          else None)"

subsection \<open>Google Translate\<close>

definition google_request :: "jsstring \<Rightarrow> jsstring \<Rightarrow> jsstring \<Rightarrow> jsstring \<Rightarrow> request" where
  "google_request API_KEY text from to =
     \<lparr>req_url = lit ''https://translation.googleapis.com/language/translate/v2?key='' @ API_KEY,
      req_method = Some (lit ''POST''),
      req_headers = [(lit ''Content-Type'', lit ''application/json'')],
      req_body = Some (JObj
        [(lit ''q'', JStr text),
         (lit ''source'', if from = lit ''auto'' then JUndefined else JStr from),
         (lit ''target'', JStr to),
         (lit ''format'', JStr (lit ''text''))])\<rparr>"

text \<open>\<^verbatim>\<open>return data.data.translations[0].translatedText\<close>: no test of the value returned.\<close>

definition google_extract :: "jsval \<Rightarrow> jsval option" where
  "google_extract data =
     (case get_prop data (lit ''data'') of None \<Rightarrow> None | Some d \<Rightarrow>
      case get_prop d (lit ''translations'') of None \<Rightarrow> None | Some ts \<Rightarrow>
      case get_prop ts (lit ''0'') of None \<Rightarrow> None | Some t0 \<Rightarrow>
      get_prop t0 (lit ''translatedText''))"

text \<open>\<^verbatim>\<open>API_KEY && API_KEY !== "demo_key"\<close>.\<close>

definition google_key :: "runtime \<Rightarrow> jsstring option" where
  "google_key w =
     (case GOOGLE_TRANSLATE_API_KEY w of
        None \<Rightarrow> None
      | Some k \<Rightarrow> if k \<noteq> [] \<and> k \<noteq> lit ''demo_key'' then Some k else None)"

definition google_attempt ::
  "runtime \<Rightarrow> jsstring \<Rightarrow> jsstring \<Rightarrow> jsstring \<Rightarrow> jsval option \<times> trace" where
  "google_attempt w text from to =
     (case google_key w of
        None \<Rightarrow> (None, [])
      | Some API_KEY \<Rightarrow>
          (let r = google_request API_KEY text from to
           in (try_fetch w r google_extract, [(Google, r)])))"

subsection \<open>Microsoft Translator\<close>

text \<open>\<^verbatim>\<open>process.env.AZURE_TRANSLATOR_KEY || 'none'\<close>.\<close>

definition azure_key :: "runtime \<Rightarrow> jsstring" where
  "azure_key w =
     (case AZURE_TRANSLATOR_KEY w of
        None \<Rightarrow> lit ''none''
      | Some k \<Rightarrow> if k \<noteq> [] then k else lit ''none'')"

definition microsoft_request :: "jsstring \<Rightarrow> jsstring \<Rightarrow> jsstring \<Rightarrow> jsstring \<Rightarrow> request" where
  "microsoft_request key text from to =
     \<lparr>req_url = lit ''https://api.cognitive.microsofttranslator.com/translate?api-version=3.0&to=''
        @ to @ (if from \<noteq> lit ''auto'' then lit ''&from='' @ from else []),
      req_method = Some (lit ''POST''),
      req_headers = [(lit ''Content-Type'', lit ''application/json''),
                     (lit ''Ocp-Apim-Subscription-Key'', key)],
      req_body = Some (JArr [JObj [(lit ''text'', JStr text)]])\<rparr>"

text \<open>
  \<^verbatim>\<open>if (data && data[0] && data[0].translations && data[0].translations[0])
  return data[0].translations[0].text\<close>: the element is tested, its \<^verbatim>\<open>text\<close> is not.
\<close>

definition microsoft_extract :: "jsval \<Rightarrow> jsval option" where
  "microsoft_extract data =
     (if \<not> truthy data then None else
      case get_prop data (lit ''0'') of None \<Rightarrow> None | Some d0 \<Rightarrow>
      if \<not> truthy d0 then None else
      case get_prop d0 (lit ''translations'') of None \<Rightarrow> None | Some ts \<Rightarrow>
      if \<not> truthy ts then None else
      case get_prop ts (lit ''0'') of None \<Rightarrow> None | Some t0 \<Rightarrow>
      if \<not> truthy t0 then None else
      get_prop t0 (lit ''text''))"

definition microsoft_attempt ::
  "runtime \<Rightarrow> jsstring \<Rightarrow> jsstring \<Rightarrow> jsstring \<Rightarrow> jsval option \<times> trace" where
  "microsoft_attempt w text from to =
     (let r = microsoft_request (azure_key w) text from to
      in (try_fetch w r microsoft_extract, [(Microsoft, r)]))"

subsection \<open>Lingva Translate\<close>

definition lingva_request :: "jsstring \<Rightarrow> jsstring \<Rightarrow> jsstring \<Rightarrow> request" where
  "lingva_request encoded from to =
     (let sourceCode = (if from = lit ''auto'' then lit ''auto'' else from)
      in \<lparr>req_url = lit ''https://lingva.ml/api/v1/'' @ sourceCode @ lit ''/'' @ to @ lit ''/''
             @ encoded,
          req_method = None, req_headers = [], req_body = None\<rparr>)"

text \<open>\<^verbatim>\<open>if (data && data.translation) return data.translation\<close>.\<close>

definition lingva_extract :: "jsval \<Rightarrow> jsval option" where
  "lingva_extract data =
     (if \<not> truthy data then None else
      case get_prop data (lit ''translation'') of None \<Rightarrow> None | Some t \<Rightarrow>
      if truthy t then Some t else None)"

text \<open>The URL is built inside the \<^verbatim>\<open>try\<close>: a \<^verbatim>\<open>URIError\<close> is caught before any request.\<close>

definition lingva_attempt ::
  "runtime \<Rightarrow> jsstring \<Rightarrow> jsstring \<Rightarrow> jsstring \<Rightarrow> jsval option \<times> trace" where
  "lingva_attempt w text from to =
     (case encodeURIComponent w text of
        None \<Rightarrow> (None, [])
      | Some encoded \<Rightarrow>
          (let r = lingva_request encoded from to
           in (try_fetch w r lingva_extract, [(Lingva, r)])))"

subsection \<open>MyMemory\<close>

definition mymemory_request :: "jsstring \<Rightarrow> jsstring \<Rightarrow> jsstring \<Rightarrow> request" where
  "mymemory_request encoded from to =
     (let langPair = (if from = lit ''auto'' then lit ''en'' else from) @ lit ''|'' @ to
      in \<lparr>req_url = lit ''https://api.mymemory.translated.net/get?q='' @ encoded
             @ lit ''&langpair='' @ langPair @ lit ''&de=example@email.com'',
          req_method = None,
          req_headers =
            [(lit ''User-Agent'', lit ''Mozilla/5.0 (compatible; UniversalTranslator/1.0)'')],
          req_body = None\<rparr>)"

text \<open>
  \<^verbatim>\<open>if (data.responseStatus === 200 && data.responseData &&
  data.responseData.translatedText) { const translated = data.responseData.translatedText;
  if (translated.toLowerCase() !== text.toLowerCase()) return translated; }\<close>.
  Only a string has a callable \<^verbatim>\<open>toLowerCase\<close>; on any other truthy value the call
  raises a \<^verbatim>\<open>TypeError\<close>.
\<close>

definition mymemory_extract :: "runtime \<Rightarrow> jsstring \<Rightarrow> jsval \<Rightarrow> jsval option" where
  "mymemory_extract w text data =
     (case get_prop data (lit ''responseStatus'') of None \<Rightarrow> None | Some st \<Rightarrow>
      if st \<noteq> JNum 200 then None else
      case get_prop data (lit ''responseData'') of None \<Rightarrow> None | Some rd \<Rightarrow>
      if \<not> truthy rd then None else
      case get_prop rd (lit ''translatedText'') of None \<Rightarrow> None | Some translated \<Rightarrow>
      if \<not> truthy translated then None else
      (case translated of
         JStr s \<Rightarrow> if toLowerCase w s \<noteq> toLowerCase w text then Some translated else None
       | _ \<Rightarrow> None))"

definition mymemory_attempt ::
  "runtime \<Rightarrow> jsstring \<Rightarrow> jsstring \<Rightarrow> jsstring \<Rightarrow> jsval option \<times> trace" where
  "mymemory_attempt w text from to =
     (case encodeURIComponent w text of
        None \<Rightarrow> (None, [])
      | Some encoded \<Rightarrow>
          (let r = mymemory_request encoded from to
           in (try_fetch w r (mymemory_extract w text), [(MyMemory, r)])))"

subsection \<open>The fallback chain\<close>

definition translateText ::
  "runtime \<Rightarrow> jsstring \<Rightarrow> jsstring \<Rightarrow> jsstring \<Rightarrow> (error + jsval) \<times> trace" where
  "translateText w text from to =
     (case google_attempt w text from to of
        (Some v, t1) \<Rightarrow> (Inr v, t1)
      | (None, t1) \<Rightarrow>
     (case microsoft_attempt w text from to of
        (Some v, t2) \<Rightarrow> (Inr v, t1 @ t2)
      | (None, t2) \<Rightarrow>
     (case lingva_attempt w text from to of
        (Some v, t3) \<Rightarrow> (Inr v, t1 @ t2 @ t3)
      | (None, t3) \<Rightarrow>
     (case mymemory_attempt w text from to of
        (Some v, t4) \<Rightarrow> (Inr v, t1 @ t2 @ t3 @ t4)
      | (None, t4) \<Rightarrow> (Inl AllTranslationServicesFailed, t1 @ t2 @ t3 @ t4)))))"

section \<open>The Google path of \<^verbatim>\<open>detectLanguage\<close>\<close>

definition detect_request :: "jsstring \<Rightarrow> jsstring \<Rightarrow> request" where
  "detect_request API_KEY text =
     \<lparr>req_url = lit ''https://translation.googleapis.com/language/translate/v2/detect?key=''
        @ API_KEY,
      req_method = Some (lit ''POST''),
      req_headers = [(lit ''Content-Type'', lit ''application/json'')],
      req_body = Some (JObj [(lit ''q'', JStr text)])\<rparr>"

text \<open>\<^verbatim>\<open>return data.data.detections[0][0].language\<close>.\<close>

definition detect_extract :: "jsval \<Rightarrow> jsval option" where
  "detect_extract data =
     (case get_prop data (lit ''data'') of None \<Rightarrow> None | Some d \<Rightarrow>
      case get_prop d (lit ''detections'') of None \<Rightarrow> None | Some ds \<Rightarrow>
      case get_prop ds (lit ''0'') of None \<Rightarrow> None | Some d0 \<Rightarrow>
      case get_prop d0 (lit ''0'') of None \<Rightarrow> None | Some d00 \<Rightarrow>
      get_prop d00 (lit ''language''))"

definition detectLanguage :: "runtime \<Rightarrow> jsstring \<Rightarrow> jsval \<times> trace" where
  "detectLanguage w text =
     (case google_key w of
        None \<Rightarrow> (JStr (heuristic_detect text), [])
      | Some API_KEY \<Rightarrow>
          (let r = detect_request API_KEY text
           in (case try_fetch w r detect_extract of
                 Some v \<Rightarrow> (v, [(Google, r)])
               | None \<Rightarrow> (JStr (heuristic_detect text), [(Google, r)]))))"

section \<open>The route \<^verbatim>\<open>POST /api/translate\<close>\<close>

text \<open>
  The request body at its interface type \<^verbatim>\<open>{text: string, from?: string, to: string}\<close>;
  \<open>None\<close> is an absent field.
\<close>

record translate_body =
  body_text :: "jsstring option"
  body_from :: "jsstring option"
  body_to :: "jsstring option"

record http_response =
  status :: nat
  json :: jsval

text \<open>\<^verbatim>\<open>from || 'auto'\<close>.\<close>

definition from_or_auto :: "jsstring option \<Rightarrow> jsstring" where
  "from_or_auto from =
     (case from of None \<Rightarrow> lit ''auto'' | Some f \<Rightarrow> if f \<noteq> [] then f else lit ''auto'')"

definition missing_required_fields :: http_response where
  "missing_required_fields =
     \<lparr>status = 400, json = JObj [(lit ''error'', JStr (lit ''Missing required fields''))]\<rparr>"

definition translation_failed :: http_response where
  "translation_failed =
     \<lparr>status = 500, json = JObj [(lit ''error'', JStr (lit ''Translation failed''))]\<rparr>"

text \<open>
  The handler. Its \<^verbatim>\<open>catch\<close> answers 500 for whatever the \<^verbatim>\<open>try\<close> block raises:
  the resolver's error, or the \<^verbatim>\<open>TypeError\<close> of the \<^verbatim>\<open>console.log\<close> template on a
  result that has no string form. \<open>now\<close> is the clock \<^verbatim>\<open>createTranslation\<close> reads.
\<close>

definition translate_route ::
  "runtime \<Rightarrow> int \<Rightarrow> translate_body \<Rightarrow> mem_storage \<Rightarrow> http_response \<times> mem_storage \<times> trace" where
  "translate_route w now b s =
     (case (body_text b, body_to b) of
        (Some text, Some to) \<Rightarrow>
          if text = [] \<or> to = [] then (missing_required_fields, s, [])
          else
            (case translateText w text (from_or_auto (body_from b)) to of
               (Inl e, tr) \<Rightarrow> (translation_failed, s, tr)
             | (Inr translated, tr) \<Rightarrow>
                 if to_string_throws translated then (translation_failed, s, tr)
                 else
                   (let (translation, s') = createTranslation
                          \<lparr>sourceText = text, translatedText = translated,
                           sourceLanguage = from_or_auto (body_from b),
                           targetLanguage = to\<rparr> now s
                    in (\<lparr>status = 200, json = JObj
                          [(lit ''translatedText'', translated),
                           (lit ''sourceLanguage'', JStr (from_or_auto (body_from b))),
                           (lit ''targetLanguage'', JStr to)]\<rparr>, s', tr)))
      | _ \<Rightarrow> (missing_required_fields, s, []))"

text \<open>The route \<^verbatim>\<open>GET /api/translations\<close>: \<^verbatim>\<open>storage.getRecentTranslations(10)\<close>.\<close>

definition translations_route :: "mem_storage \<Rightarrow> translation list" where
  "translations_route s = getRecentTranslations s 10"

section \<open>Reachable stores and orderings\<close>

text \<open>
  What every store built by \<^verbatim>\<open>createTranslation\<close> from the empty one satisfies: the keys
  are \<open>1, 2, ..\<close> in insertion order, each record carries its key, and the counter is the
  next key.
\<close>

definition store_ok :: "mem_storage \<Rightarrow> bool" where
  "store_ok s =
     (map fst (translation_map s) = [1..<currentTranslationId s]
      \<and> map (rec_id \<circ> snd) (translation_map s) = [1..<currentTranslationId s]
      \<and> 1 \<le> currentTranslationId s)"

text \<open>
  Most recent first, and among records of one timestamp the smaller id first (the order
  of creation).
\<close>

definition newest_first_then_ascending_id :: "translation list \<Rightarrow> bool" where
  "newest_first_then_ascending_id xs =
     sorted_wrt (\<lambda>a b. createdAt b < createdAt a
        \<or> (createdAt b = createdAt a \<and> rec_id a < rec_id b)) xs"

text \<open>Most recent first, and among records of one timestamp the larger id first.\<close>

definition newest_first_then_descending_id :: "translation list \<Rightarrow> bool" where
  "newest_first_then_descending_id xs =
     sorted_wrt (\<lambda>a b. createdAt b < createdAt a
        \<or> (createdAt b = createdAt a \<and> rec_id b < rec_id a)) xs"

section \<open>Test data and stubbed runtimes\<close>

definition hello_hola :: insert_translation where
  "hello_hola =
     \<lparr>sourceText = lit ''Hello'', translatedText = JStr (lit ''Hola''),
      sourceLanguage = lit ''auto'', targetLanguage = lit ''es''\<rparr>"

definition three_calls :: "(insert_translation \<times> int) list" where
  "three_calls = [(hello_hola, 5), (hello_hola, 9), (hello_hola, 5)]"

text \<open>Two records created within one millisecond.\<close>

definition tie_calls :: "(insert_translation \<times> int) list" where
  "tie_calls = [(hello_hola, 1000), (hello_hola, 1000)]"

text \<open>
  Stand-ins for the two built-ins. They agree with the built-ins on strings of ASCII
  letters and digits, the only ones the stubbed runtimes apply them to.
\<close>

definition ascii_toLowerCase :: "jsstring \<Rightarrow> jsstring" where
  "ascii_toLowerCase s = map (\<lambda>c. if 0x41 \<le> c \<and> c \<le> 0x5A then c + 0x20 else c) s"

definition alnum_encodeURIComponent :: "jsstring \<Rightarrow> jsstring option" where
  "alnum_encodeURIComponent s =
     (if list_all (\<lambda>c. (0x30 \<le> c \<and> c \<le> 0x39) \<or> (0x41 \<le> c \<and> c \<le> 0x5A)
                       \<or> (0x61 \<le> c \<and> c \<le> 0x7A)) s
      then Some s else None)"

text \<open>
  A stubbed network: a request is answered by the first entry whose prefix its URL starts
  with, and fails with a network error when there is none.
\<close>

definition starts_with :: "jsstring \<Rightarrow> jsstring \<Rightarrow> bool" where
  "starts_with p s = (take (length p) s = p)"

definition stub_fetch :: "(jsstring \<times> fetch_result) list \<Rightarrow> request \<Rightarrow> fetch_result" where
  "stub_fetch responses r =
     (case find (\<lambda>(p, res). starts_with p (req_url r)) responses of
        Some (p, res) \<Rightarrow> res
      | None \<Rightarrow> NetworkError)"

text \<open>No key is configured in a stubbed runtime.\<close>

definition stub_runtime :: "(jsstring \<times> fetch_result) list \<Rightarrow> runtime" where
  "stub_runtime responses =
     \<lparr>GOOGLE_TRANSLATE_API_KEY = None, AZURE_TRANSLATOR_KEY = None,
      fetch = stub_fetch responses,
      toLowerCase = ascii_toLowerCase, encodeURIComponent = alnum_encodeURIComponent\<rparr>"

text \<open>The same with both keys configured.\<close>

definition keyed_runtime :: "(jsstring \<times> fetch_result) list \<Rightarrow> runtime" where
  "keyed_runtime responses =
     \<lparr>GOOGLE_TRANSLATE_API_KEY = Some (lit ''gkey''), AZURE_TRANSLATOR_KEY = Some (lit ''akey''),
      fetch = stub_fetch responses,
      toLowerCase = ascii_toLowerCase, encodeURIComponent = alnum_encodeURIComponent\<rparr>"

text \<open>Google answers \<^verbatim>\<open>200 {"data": {"translations": [{}]}}\<close>.\<close>

definition google_without_text :: "jsstring \<times> fetch_result" where
  "google_without_text =
     (lit ''https://translation.googleapis.com/'',
      Response True (Some (JObj [(lit ''data'', JObj [(lit ''translations'', JArr [JObj []])])])))"

text \<open>Lingva answers \<^verbatim>\<open>200 {"translation": "Hola"}\<close>.\<close>

definition lingva_hola :: "jsstring \<times> fetch_result" where
  "lingva_hola =
     (lit ''https://lingva.ml/'',
      Response True (Some (JObj [(lit ''translation'', JStr (lit ''Hola''))])))"

text \<open>Lingva answers \<^verbatim>\<open>200 {"translation": "Hello"}\<close>, the input as it was sent.\<close>

definition lingva_echo :: "jsstring \<times> fetch_result" where
  "lingva_echo =
     (lit ''https://lingva.ml/'',
      Response True (Some (JObj [(lit ''translation'', JStr (lit ''Hello''))])))"

text \<open>Microsoft answers \<^verbatim>\<open>200 [{"translations": [{}]}]\<close>: the field \<^verbatim>\<open>text\<close> is missing.\<close>

definition microsoft_without_text :: "jsstring \<times> fetch_result" where
  "microsoft_without_text =
     (lit ''https://api.cognitive.microsofttranslator.com/'',
      Response True (Some (JArr [JObj [(lit ''translations'', JArr [JObj []])]])))"

text \<open>Microsoft answers \<^verbatim>\<open>200 [{"translations": [{"text": ""}]}]\<close>.\<close>

definition microsoft_empty_text :: "jsstring \<times> fetch_result" where
  "microsoft_empty_text =
     (lit ''https://api.cognitive.microsofttranslator.com/'',
      Response True (Some (JArr [JObj [(lit ''translations'',
        JArr [JObj [(lit ''text'', JStr [])]])]])))"

text \<open>
  MyMemory answers \<^verbatim>\<open>200 {"responseStatus": 200, "responseData": {"translatedText":
  "HELLO"}}\<close>.
\<close>

definition mymemory_upper :: "jsstring \<times> fetch_result" where
  "mymemory_upper =
     (lit ''https://api.mymemory.translated.net/'',
      Response True (Some (JObj
        [(lit ''responseStatus'', JNum 200),
         (lit ''responseData'', JObj [(lit ''translatedText'', JStr (lit ''HELLO''))])])))"

text \<open>The request \<^verbatim>\<open>POST /api/translate {text: "Hello", to: "es"}\<close>.\<close>

definition hello_to_es :: translate_body where
  "hello_to_es = \<lparr>body_text = Some (lit ''Hello''), body_from = None, body_to = Some (lit ''es'')\<rparr>"

text \<open>The request \<^verbatim>\<open>POST /api/translate {text: "Hello", from: "en", to: "es"}\<close>.\<close>

definition hello_en_to_es :: translate_body where
  "hello_en_to_es =
     \<lparr>body_text = Some (lit ''Hello''), body_from = Some (lit ''en''), body_to = Some (lit ''es'')\<rparr>"

text \<open>The request \<^verbatim>\<open>POST /api/translate {to: "es"}\<close>.\<close>

definition only_to_es :: translate_body where
  "only_to_es = \<lparr>body_text = None, body_from = None, body_to = Some (lit ''es'')\<rparr>"

lemmas stub_defs = stub_runtime_def stub_fetch_def starts_with_def ascii_toLowerCase_def
  alnum_encodeURIComponent_def lingva_hola_def lingva_echo_def microsoft_without_text_def
  microsoft_empty_text_def mymemory_upper_def hello_to_es_def only_to_es_def
  hello_en_to_es_def keyed_runtime_def google_without_text_def

lemmas resolver_defs = translateText_def google_attempt_def google_key_def google_request_def
  google_extract_def microsoft_attempt_def microsoft_request_def azure_key_def
  microsoft_extract_def lingva_attempt_def lingva_request_def lingva_extract_def
  mymemory_attempt_def mymemory_request_def mymemory_extract_def try_fetch_def

lemmas store_defs = createTranslation_def new_storage_def getRecentTranslations_def slice0_def
  array_sort_def by_createdAt_desc_def insert_translation.extend_def translation.fields_def

section \<open>The store: sequential ids, append-only, recency order\<close>

text \<open>
  With this comparison function the sort is the library's stable insertion sort on the
  key \<open>- createdAt\<close>.
\<close>

lemma insert_by_insort:
  "insert_by by_createdAt_desc x ys = insort_key (\<lambda>t. - createdAt t) x ys"
  by (induction ys) (simp_all add: by_createdAt_desc_def)

lemma array_sort_sort_key:
  "array_sort by_createdAt_desc xs = sort_key (\<lambda>t. - createdAt t) xs"
  by (induction xs) (simp_all add: array_sort_def insert_by_insort)

text \<open>\<^verbatim>\<open>createTranslation\<close> appends under a key that is not yet in the map.\<close>

lemma map_set_fresh: "k \<notin> fst ` set m \<Longrightarrow> map_set k v m = m @ [(k, v)]"
  by (induction m) auto

lemma store_ok_new: "store_ok new_storage"
  by (simp add: store_ok_def new_storage_def)

lemma createTranslation_appends:
  assumes "store_ok s" and "createTranslation ins now s = (t, s')"
  shows "translation_map s' = translation_map s @ [(rec_id t, t)]"
    and "rec_id t = currentTranslationId s"
    and "currentTranslationId s' = Suc (currentTranslationId s)"
    and "createdAt t = now"
    and "insert_translation.truncate t = ins"
    and "store_ok s'"
proof -
  have fresh: "currentTranslationId s \<notin> fst ` set (translation_map s)"
    using assms(1) by (metis store_ok_def atLeastLessThan_iff less_irrefl set_map set_upt)
  from assms(2) have t: "t = insert_translation.extend ins (translation.fields (currentTranslationId s) now)"
    and s': "s' = \<lparr>translation_map = map_set (currentTranslationId s) t (translation_map s),
           currentTranslationId = currentTranslationId s + 1\<rparr>"
    by (auto simp: createTranslation_def Let_def)
  show id: "rec_id t = currentTranslationId s"
    by (simp add: t insert_translation.extend_def translation.fields_def)
  show app: "translation_map s' = translation_map s @ [(rec_id t, t)]"
    by (simp add: s' id map_set_fresh[OF fresh])
  show cur: "currentTranslationId s' = Suc (currentTranslationId s)" by (simp add: s')
  show "createdAt t = now"
    by (simp add: t insert_translation.extend_def translation.fields_def)
  show "insert_translation.truncate t = ins"
    by (simp add: t insert_translation.extend_def translation.fields_def insert_translation.truncate_def)
  show "store_ok s'"
    unfolding store_ok_def app cur using assms(1) id by (simp add: store_ok_def)
qed

lemma create_all_spec:
  "store_ok s \<Longrightarrow> create_all calls s = (ts, s') \<Longrightarrow>
     map rec_id ts = [currentTranslationId s..<currentTranslationId s + length calls]
   \<and> map createdAt ts = map snd calls
   \<and> map insert_translation.truncate ts = map fst calls
   \<and> translation_map s' = translation_map s @ map (\<lambda>t. (rec_id t, t)) ts
   \<and> currentTranslationId s' = currentTranslationId s + length calls
   \<and> store_ok s'"
proof (induction calls arbitrary: s ts s')
  case Nil
  then show ?case by simp
next
  case (Cons c calls)
  obtain ins now where c: "c = (ins, now)" by (cases c)
  obtain t s1 where one: "createTranslation ins now s = (t, s1)" by (cases "createTranslation ins now s")
  obtain ts1 s2 where rest: "create_all calls s1 = (ts1, s2)" by (cases "create_all calls s1")
  from Cons.prems(2) have ts: "ts = t # ts1" and s': "s' = s2"
    by (simp_all add: c one rest)
  note step = createTranslation_appends[OF Cons.prems(1) one]
  note ih = Cons.IH[OF step(6) rest]
  have ids: "[currentTranslationId s..<currentTranslationId s + length (c # calls)]
      = currentTranslationId s # [Suc (currentTranslationId s)..<Suc (currentTranslationId s) + length calls]"
    by (subst upt_rec) simp
  show ?case
    unfolding ids using ih step(1-5) by (simp add: ts s' c del: upt_Suc)
qed

text \<open>
  A stable sort of a list that is ordered by \<open>R\<close> leaves elements of equal key in the
  order \<open>R\<close>.
\<close>

lemma sorted_wrt_filter_pairs:
  "sorted_wrt R (filter Q ys) \<Longrightarrow> sorted_wrt (\<lambda>a b. Q a \<and> Q b \<longrightarrow> R a b) ys"
  by (induction ys) (auto split: if_splits)

lemma stable_sort_ties:
  fixes f :: "'a \<Rightarrow> int"
  assumes "sorted_wrt R xs"
  shows "sorted_wrt (\<lambda>a b. f a < f b \<or> (f a = f b \<and> R a b)) (sort_key f xs)"
proof -
  let ?ys = "sort_key f xs"
  have ties: "sorted_wrt (\<lambda>a b. f a = k \<and> f b = k \<longrightarrow> R a b) ?ys" for k
  proof -
    have "sorted_wrt R (filter (\<lambda>y. f y = k) xs)"
      using assms by (rule sorted_wrt_filter)
    then have "sorted_wrt R (filter (\<lambda>y. f y = k) ?ys)"
      by (simp only: sort_key_stable)
    then show ?thesis by (rule sorted_wrt_filter_pairs)
  qed
  have keys: "sorted (map f ?ys)" by simp
  show ?thesis
    unfolding sorted_wrt_iff_nth_less
  proof (intro allI impI)
    fix i j assume ij: "i < j" "j < length ?ys"
    have le: "f (?ys ! i) \<le> f (?ys ! j)"
      using keys ij by (simp add: sorted_iff_nth_mono)
    have "f (?ys ! i) = f (?ys ! j) \<longrightarrow> R (?ys ! i) (?ys ! j)"
      using ties[of "f (?ys ! i)"] ij by (simp add: sorted_wrt_iff_nth_less)
    with le show "f (?ys ! i) < f (?ys ! j) \<or> (f (?ys ! i) = f (?ys ! j) \<and> R (?ys ! i) (?ys ! j))"
      by linarith
  qed
qed

lemma sorted_desc_ids:
  assumes "sorted_wrt (<) (map rec_id xs)"
  shows "newest_first_then_ascending_id (array_sort by_createdAt_desc xs)"
proof -
  have "sorted_wrt (\<lambda>a b. rec_id a < rec_id b) xs"
    using assms by (simp add: sorted_wrt_map)
  from stable_sort_ties[OF this, of "\<lambda>t. - createdAt t"]
  show ?thesis
    unfolding newest_first_then_ascending_id_def array_sort_sort_key
    by (rule sorted_wrt_mono_rel[rotated]) auto
qed

text \<open>What a prefix of a sorted list leaves out is not smaller than what it holds.\<close>

lemma take_top:
  fixes f :: "'a \<Rightarrow> int"
  assumes "sorted (map f ys)" "x \<in> set ys" "x \<notin> set (take n ys)" "y \<in> set (take n ys)"
  shows "f y \<le> f x"
proof -
  from assms(2,3) have "x \<in> set (drop n ys)"
    by (metis Un_iff append_take_drop_id set_append)
  moreover have "sorted (map f (take n ys) @ map f (drop n ys))"
    using assms(1) by (metis append_take_drop_id map_append)
  ultimately show ?thesis using assms(4) by (auto simp: sorted_append)
qed

lemma slice0_nonneg: "0 \<le> k \<Longrightarrow> slice0 k xs = take (nat k) xs"
  by (simp add: slice0_def)

text \<open>
  Claim C6. \<open>N\<close> calls of \<^verbatim>\<open>createTranslation\<close> on a fresh store return records with
  the ids \<open>1, .., N\<close> in order, each holding the fields and the timestamp it was created
  with. The store then holds exactly these records under their ids, in creation order, so
  no id occurs twice and no record was altered after its creation. One more call always
  returns a record, with the id \<open>N + 1\<close>, and appends it: every earlier entry stays as
  it was. \<^verbatim>\<open>getRecentTranslations\<close> only reads (it returns no store).
\<close>

theorem createTranslation_sequential_ids:
  "create_all calls new_storage = (ts, s) \<Longrightarrow>
     map rec_id ts = [1..<Suc (length calls)]
   \<and> map insert_translation.truncate ts = map fst calls
   \<and> map createdAt ts = map snd calls
   \<and> translation_map s = map (\<lambda>t. (rec_id t, t)) ts
   \<and> distinct (map fst (translation_map s))
   \<and> (\<exists>t s'. createTranslation ins now s = (t, s')
        \<and> rec_id t = Suc (length calls)
        \<and> insert_translation.truncate t = ins
        \<and> createdAt t = now
        \<and> translation_map s' = translation_map s @ [(rec_id t, t)])"
proof -
  assume run: "create_all calls new_storage = (ts, s)"
  note spec = create_all_spec[OF store_ok_new run]
  have cur: "currentTranslationId s = Suc (length calls)"
    using spec by (simp add: new_storage_def)
  have ids: "map rec_id ts = [1..<Suc (length calls)]"
    using spec by (simp add: new_storage_def)
  have tm: "translation_map s = map (\<lambda>t. (rec_id t, t)) ts"
    using spec by (simp add: new_storage_def)
  have "map fst (translation_map s) = map rec_id ts"
    by (simp add: tm comp_def)
  then have dist: "distinct (map fst (translation_map s))"
    by (simp add: ids)
  obtain t s' where one: "createTranslation ins now s = (t, s')"
    by (cases "createTranslation ins now s")
  have ok: "store_ok s" using spec by simp
  note step = createTranslation_appends[OF ok one]
  have "\<exists>t s'. createTranslation ins now s = (t, s')
        \<and> rec_id t = Suc (length calls)
        \<and> insert_translation.truncate t = ins
        \<and> createdAt t = now
        \<and> translation_map s' = translation_map s @ [(rec_id t, t)]"
    using one step(1,2,4,5) cur by auto
  with ids tm dist spec show ?thesis by simp
qed

text \<open>Three calls, then a fourth.\<close>

theorem createTranslation_sequential_ids_witness:
  "map rec_id (fst (create_all three_calls new_storage)) = [1, 2, 3]
   \<and> map fst (translation_map (snd (create_all three_calls new_storage))) = [1, 2, 3]
   \<and> rec_id (fst (createTranslation hello_hola 7 (snd (create_all three_calls new_storage)))) = 4"
proof -
  have h: "create_all three_calls new_storage =
      (fst (create_all three_calls new_storage), snd (create_all three_calls new_storage))"
    by simp
  from createTranslation_sequential_ids[OF h, of hello_hola 7]
  show ?thesis
    by (auto simp: three_calls_def comp_def upt_rec)
qed

text \<open>
  Claim C5, as amended. For every store built by \<^verbatim>\<open>createTranslation\<close> calls and every
  limit \<open>k \<ge> 0\<close>, \<^verbatim>\<open>getRecentTranslations(k)\<close> returns \<open>min k N\<close> of the \<open>N\<close>
  stored records (none when the store is empty), without repetition, most recent
  \<^verbatim>\<open>createdAt\<close> first; no record left out is more recent than one returned. Records
  of equal \<^verbatim>\<open>createdAt\<close> come in ascending id: the sort is stable and the map iterates
  in insertion order.
\<close>

theorem getRecentTranslations_newest_first:
  "create_all calls new_storage = (ts, s) \<Longrightarrow> 0 \<le> k \<Longrightarrow>
     length (getRecentTranslations s k) = min (nat k) (length calls)
   \<and> newest_first_then_ascending_id (getRecentTranslations s k)
   \<and> distinct (getRecentTranslations s k)
   \<and> set (getRecentTranslations s k) \<subseteq> set ts
   \<and> (\<forall>x\<in>set ts - set (getRecentTranslations s k).
        \<forall>y\<in>set (getRecentTranslations s k). createdAt x \<le> createdAt y)"
proof -
  assume run: "create_all calls new_storage = (ts, s)" and k: "0 \<le> k"
  note spec = create_all_spec[OF store_ok_new run]
  have vals: "map snd (translation_map s) = ts"
    using spec by (simp add: new_storage_def comp_def)
  have ids: "map rec_id ts = [1..<Suc (length calls)]"
    using spec by (simp add: new_storage_def)
  have len: "length ts = length calls"
    using ids by (metis length_map length_upt diff_Suc_1)
  let ?sorted = "array_sort by_createdAt_desc ts"
  have recent: "getRecentTranslations s k = take (nat k) ?sorted"
    by (simp add: getRecentTranslations_def vals slice0_nonneg[OF k])
  have asc: "sorted_wrt (<) (map rec_id ts)"
    by (simp only: ids sorted_wrt_upt)
  have dts: "distinct ts"
    using ids by (metis distinct_upt distinct_map)
  have 1: "length (take (nat k) ?sorted) = min (nat k) (length calls)"
    by (simp add: array_sort_sort_key len min.commute)
  have "newest_first_then_ascending_id ?sorted"
    using asc by (rule sorted_desc_ids)
  then have 2: "newest_first_then_ascending_id (take (nat k) ?sorted)"
    unfolding newest_first_then_ascending_id_def by (rule sorted_wrt_take)
  have 3: "distinct (take (nat k) ?sorted)"
    using dts by (simp add: array_sort_sort_key)
  have 4: "set (take (nat k) ?sorted) \<subseteq> set ts"
    using set_take_subset[of "nat k" ?sorted] by (simp add: array_sort_sort_key)
  have 5: "createdAt x \<le> createdAt y"
    if "x \<in> set ts - set (take (nat k) ?sorted)" "y \<in> set (take (nat k) ?sorted)" for x y
  proof -
    have "sorted (map (\<lambda>t. - createdAt t) (sort_key (\<lambda>t. - createdAt t) ts))" by simp
    from take_top[OF this, of x "nat k" y] that
    show ?thesis by (simp add: array_sort_sort_key)
  qed
  show ?thesis
    unfolding recent using 1 2 3 4 5 by blast
qed

text \<open>Timestamps 5, 9, 5 and limit 2: the records 2 and 1 are returned, in that order.\<close>

theorem getRecentTranslations_newest_first_witness:
  "(0::int) \<le> 2
   \<and> map rec_id (getRecentTranslations (snd (create_all three_calls new_storage)) 2) = [2, 1]
   \<and> newest_first_then_ascending_id
        (getRecentTranslations (snd (create_all three_calls new_storage)) 2)"
proof -
  have h: "create_all three_calls new_storage =
      (fst (create_all three_calls new_storage), snd (create_all three_calls new_storage))"
    by simp
  have e: "map rec_id (getRecentTranslations (snd (create_all three_calls new_storage)) 2) = [2, 1]"
    by (simp add: three_calls_def createTranslation_def new_storage_def getRecentTranslations_def
        slice0_def array_sort_def by_createdAt_desc_def insert_translation.extend_def
        translation.fields_def Let_def)
  from getRecentTranslations_newest_first[OF h, of 2] e
  show ?thesis by simp
qed

text \<open>
  Claim C5 as stated fails on ties: two records created at the same millisecond are
  returned with id 1 before id 2, not in descending id.
\<close>

theorem getRecentTranslations_ties_counterexample:
  "\<not> newest_first_then_descending_id
        (getRecentTranslations (snd (create_all tie_calls new_storage)) 10)"
  by (simp add: tie_calls_def createTranslation_def new_storage_def getRecentTranslations_def
        slice0_def array_sort_def by_createdAt_desc_def insert_translation.extend_def
        translation.fields_def Let_def newest_first_then_descending_id_def)

section \<open>The heuristic detector\<close>

lemma regex_test_iff: "regex_test cls cs \<longleftrightarrow> (\<exists>c\<in>set cs. in_class cls c)"
  by (induction cs) auto

text \<open>
  Claim C7. The heuristic answers by the first range, in the order CJK ideographs,
  Hiragana or Katakana, Hangul, Cyrillic, Arabic, Basic Latin letters, of which the text
  holds a code unit; a text with none of them (the empty one too) gets \<^verbatim>\<open>en\<close>. It
  answers one of the six codes for every text.
\<close>

theorem heuristic_detect_priority:
  "heuristic_detect text =
     (if \<exists>c\<in>set text. 0x4E00 \<le> c \<and> c \<le> 0x9FFF then lit ''zh''
      else if \<exists>c\<in>set text. (0x3040 \<le> c \<and> c \<le> 0x309F) \<or> (0x30A0 \<le> c \<and> c \<le> 0x30FF)
        then lit ''ja''
      else if \<exists>c\<in>set text. 0xAC00 \<le> c \<and> c \<le> 0xD7AF then lit ''ko''
      else if \<exists>c\<in>set text. 0x0400 \<le> c \<and> c \<le> 0x04FF then lit ''ru''
      else if \<exists>c\<in>set text. 0x0600 \<le> c \<and> c \<le> 0x06FF then lit ''ar''
      else if \<exists>c\<in>set text. (0x61 \<le> c \<and> c \<le> 0x7A) \<or> (0x41 \<le> c \<and> c \<le> 0x5A)
        then lit ''en''
      else lit ''en'')
   \<and> heuristic_detect text \<in> {lit ''zh'', lit ''ja'', lit ''ko'', lit ''ru'', lit ''ar'', lit ''en''}"
  by (simp add: heuristic_detect_def regex_test_iff chinese_class_def japanese_class_def
      korean_class_def cyrillic_class_def arabic_class_def latin_class_def)

text \<open>
  Hiragana, ideograph and Latin letter together give \<^verbatim>\<open>zh\<close>; a Latin letter with Hiragana
  gives \<^verbatim>\<open>ja\<close>; punctuation and the empty text give \<^verbatim>\<open>en\<close>.
\<close>

theorem heuristic_detect_priority_witness:
  "heuristic_detect [0x3042, 0x4E2D, 0x41] = lit ''zh''
   \<and> heuristic_detect [0x41, 0x3042] = lit ''ja''
   \<and> heuristic_detect [0x21, 0x3F] = lit ''en''
   \<and> heuristic_detect [] = lit ''en''"
  using heuristic_detect_priority[of "[0x3042, 0x4E2D, 0x41]"]
    heuristic_detect_priority[of "[0x41, 0x3042]"]
    heuristic_detect_priority[of "[0x21, 0x3F]"]
    heuristic_detect_priority[of "[]"]
  by simp

text \<open>Without a usable Google key \<^verbatim>\<open>detectLanguage\<close> is the heuristic, and sends nothing.\<close>

lemma detectLanguage_without_key:
  "google_key w = None \<Longrightarrow> detectLanguage w cs = (JStr (heuristic_detect cs), [])"
  by (simp add: detectLanguage_def)

section \<open>The resolver: which requests are issued\<close>

text \<open>Each attempt issues at most one request, under its own provider.\<close>

lemma google_trace: "snd (google_attempt w text from to) = [] \<or>
  (\<exists>k. google_key w = Some k \<and> snd (google_attempt w text from to) = [(Google, google_request k text from to)])"
  by (simp add: google_attempt_def Let_def split: option.splits)

lemma microsoft_trace:
  "snd (microsoft_attempt w text from to) = [(Microsoft, microsoft_request (azure_key w) text from to)]"
  by (simp add: microsoft_attempt_def Let_def)

lemma lingva_trace: "snd (lingva_attempt w text from to) = [] \<or>
  (\<exists>e. encodeURIComponent w text = Some e \<and> snd (lingva_attempt w text from to) = [(Lingva, lingva_request e from to)])"
  by (simp add: lingva_attempt_def Let_def split: option.splits)

lemma mymemory_trace: "snd (mymemory_attempt w text from to) = [] \<or>
  (\<exists>e. encodeURIComponent w text = Some e \<and> snd (mymemory_attempt w text from to) = [(MyMemory, mymemory_request e from to)])"
  by (simp add: mymemory_attempt_def Let_def split: option.splits)

text \<open>The chain, by the outcome and the requests of each attempt.\<close>

lemma translateText_alt:
  "translateText w text from to =
     (case fst (google_attempt w text from to) of
        Some v \<Rightarrow> (Inr v, snd (google_attempt w text from to))
      | None \<Rightarrow>
     (case fst (microsoft_attempt w text from to) of
        Some v \<Rightarrow> (Inr v, snd (google_attempt w text from to) @ snd (microsoft_attempt w text from to))
      | None \<Rightarrow>
     (case fst (lingva_attempt w text from to) of
        Some v \<Rightarrow> (Inr v, snd (google_attempt w text from to) @ snd (microsoft_attempt w text from to)
                      @ snd (lingva_attempt w text from to))
      | None \<Rightarrow>
     (case fst (mymemory_attempt w text from to) of
        Some v \<Rightarrow> (Inr v, snd (google_attempt w text from to) @ snd (microsoft_attempt w text from to)
                      @ snd (lingva_attempt w text from to) @ snd (mymemory_attempt w text from to))
      | None \<Rightarrow> (Inl AllTranslationServicesFailed,
                  snd (google_attempt w text from to) @ snd (microsoft_attempt w text from to)
                      @ snd (lingva_attempt w text from to) @ snd (mymemory_attempt w text from to))))))"
  by (cases "google_attempt w text from to"; cases "microsoft_attempt w text from to";
      cases "lingva_attempt w text from to"; cases "mymemory_attempt w text from to")
     (simp add: translateText_def split: option.splits)

lemma translateText_trace_prefix:
  "\<exists>n. snd (translateText w text from to) =
     take n (snd (google_attempt w text from to) @ snd (microsoft_attempt w text from to)
       @ snd (lingva_attempt w text from to) @ snd (mymemory_attempt w text from to))"
proof -
  let ?g = "snd (google_attempt w text from to)"
  let ?m = "snd (microsoft_attempt w text from to)"
  let ?l = "snd (lingva_attempt w text from to)"
  let ?y = "snd (mymemory_attempt w text from to)"
  have "snd (translateText w text from to) \<in> {?g, ?g @ ?m, ?g @ ?m @ ?l, ?g @ ?m @ ?l @ ?y}"
    by (simp add: translateText_alt split: option.splits)
  moreover have "?g = take (length ?g) (?g @ ?m @ ?l @ ?y)" by simp
  moreover have "?g @ ?m = take (length (?g @ ?m)) (?g @ ?m @ ?l @ ?y)" by simp
  moreover have "?g @ ?m @ ?l = take (length (?g @ ?m @ ?l)) (?g @ ?m @ ?l @ ?y)" by simp
  moreover have "?g @ ?m @ ?l @ ?y = take (length (?g @ ?m @ ?l @ ?y)) (?g @ ?m @ ?l @ ?y)" by simp
  ultimately show ?thesis by (metis insertE singletonD)
qed

text \<open>
  Claim C10. When the resolver is called with the source language \<^verbatim>\<open>auto\<close>, every
  request it sends to the final fallback provider (MyMemory) has the URL
  \<^verbatim>\<open>https://api.mymemory.translated.net/get?q=<encoded text>&langpair=en|<to>&de=example@email.com\<close>:
  the source half of the language pair is the fixed code \<^verbatim>\<open>en\<close>.
\<close>

theorem mymemory_auto_langpair_en:
  "(MyMemory, r) \<in> set (snd (translateText w text (lit ''auto'') to)) \<Longrightarrow>
     \<exists>encoded. encodeURIComponent w text = Some encoded
       \<and> req_url r = lit ''https://api.mymemory.translated.net/get?q='' @ encoded
            @ lit ''&langpair=en|'' @ to @ lit ''&de=example@email.com''"
proof -
  assume a: "(MyMemory, r) \<in> set (snd (translateText w text (lit ''auto'') to))"
  obtain n where "snd (translateText w text (lit ''auto'') to) =
     take n (snd (google_attempt w text (lit ''auto'') to) @ snd (microsoft_attempt w text (lit ''auto'') to)
       @ snd (lingva_attempt w text (lit ''auto'') to) @ snd (mymemory_attempt w text (lit ''auto'') to))"
    using translateText_trace_prefix by blast
  with a have "(MyMemory, r) \<in> set (snd (google_attempt w text (lit ''auto'') to) @ snd (microsoft_attempt w text (lit ''auto'') to)
       @ snd (lingva_attempt w text (lit ''auto'') to) @ snd (mymemory_attempt w text (lit ''auto'') to))"
    by (metis in_set_takeD)
  then have "(MyMemory, r) \<in> set (snd (mymemory_attempt w text (lit ''auto'') to))"
    using google_trace[of w "text" "lit ''auto''" to] lingva_trace[of w "text" "lit ''auto''" to]
    by (auto simp: microsoft_trace)
  then obtain e where e: "encodeURIComponent w text = Some e" and r: "r = mymemory_request e (lit ''auto'') to"
    using mymemory_trace[of w "text" "lit ''auto''" to] by auto
  have "req_url r = lit ''https://api.mymemory.translated.net/get?q='' @ e
            @ lit ''&langpair=en|'' @ to @ lit ''&de=example@email.com''"
    by (simp add: r mymemory_request_def Let_def lit_def)
  with e show ?thesis by blast
qed

text \<open>With every provider down the MyMemory request is sent, with \<^verbatim>\<open>langpair=en|es\<close>.\<close>

theorem mymemory_auto_langpair_en_witness:
  "(MyMemory, mymemory_request (lit ''Hello'') (lit ''auto'') (lit ''es''))
      \<in> set (snd (translateText (stub_runtime []) (lit ''Hello'') (lit ''auto'') (lit ''es'')))
   \<and> req_url (mymemory_request (lit ''Hello'') (lit ''auto'') (lit ''es''))
      = lit ''https://api.mymemory.translated.net/get?q=Hello&langpair=en|es&de=example@email.com''"
proof -
  have h: "(MyMemory, mymemory_request (lit ''Hello'') (lit ''auto'') (lit ''es''))
      \<in> set (snd (translateText (stub_runtime []) (lit ''Hello'') (lit ''auto'') (lit ''es'')))"
    by (simp add: stub_defs resolver_defs lit_def)
  have e: "encodeURIComponent (stub_runtime []) (lit ''Hello'') = Some (lit ''Hello'')"
    by (simp add: stub_defs lit_def)
  from mymemory_auto_langpair_en[OF h] e h show ?thesis
    by (simp add: lit_def)
qed









text \<open>
  A Google response that lacks only the last field returns \<^verbatim>\<open>undefined\<close>, so no
  Microsoft request follows.
\<close>

lemma google_unchecked_field_ends_chain:
  "translateText (keyed_runtime [google_without_text, lingva_hola])
       (lit ''Hello'') (lit ''auto'') (lit ''es'')
     = (Inr JUndefined,
        [(Google, google_request (lit ''gkey'') (lit ''Hello'') (lit ''auto'') (lit ''es''))])"
  by (simp add: stub_defs resolver_defs lit_def)


section \<open>The translate route\<close>

text \<open>
  Claim C9. A request whose \<^verbatim>\<open>text\<close> is missing or empty, or whose \<^verbatim>\<open>to\<close> is
  missing, is answered with status 400 and the body \<^verbatim>\<open>{error: "Missing required fields"}\<close>;
  no request is sent to any provider and the store is unchanged.
\<close>

theorem translate_route_missing_fields:
  "body_text b = None \<or> body_text b = Some [] \<or> body_to b = None \<Longrightarrow>
     translate_route w now b s =
       (\<lparr>status = 400, json = JObj [(lit ''error'', JStr (lit ''Missing required fields''))]\<rparr>,
        s, [])"
  by (auto simp: translate_route_def missing_required_fields_def split: option.splits)

text \<open>\<^verbatim>\<open>{to: "es"}\<close>, with a provider that would have answered.\<close>

theorem translate_route_missing_fields_witness:
  "body_text only_to_es = None
   \<and> translate_route (stub_runtime [lingva_hola]) 1000 only_to_es new_storage =
       (\<lparr>status = 400, json = JObj [(lit ''error'', JStr (lit ''Missing required fields''))]\<rparr>,
        new_storage, [])"
proof -
  have h: "body_text only_to_es = None" by (simp add: only_to_es_def)
  then have "body_text only_to_es = None \<or> body_text only_to_es = Some [] \<or> body_to only_to_es = None"
    by simp
  from translate_route_missing_fields[OF this] h show ?thesis by simp
qed

text \<open>
  The route once the resolver has returned: 500 when the result has no string form for
  the log line, otherwise 200 and the store that \<^verbatim>\<open>createTranslation\<close> leaves.
\<close>

lemma translate_route_on_result:
  "body_text b = Some text \<Longrightarrow> text \<noteq> [] \<Longrightarrow> body_to b = Some to \<Longrightarrow> to \<noteq> [] \<Longrightarrow>
   translateText w text (from_or_auto (body_from b)) to = (Inr translated, tr) \<Longrightarrow>
     translate_route w now b s =
       (if to_string_throws translated then (translation_failed, s, tr)
        else (\<lparr>status = 200, json = JObj
                [(lit ''translatedText'', translated),
                 (lit ''sourceLanguage'', JStr (from_or_auto (body_from b))),
                 (lit ''targetLanguage'', JStr to)]\<rparr>,
              snd (createTranslation
                \<lparr>sourceText = text, translatedText = translated,
                 sourceLanguage = from_or_auto (body_from b), targetLanguage = to\<rparr> now s),
              tr))"
  by (simp add: translate_route_def split: prod.splits)

text \<open>
  Claim C8. Let \<open>src\<close> be the request's \<^verbatim>\<open>from\<close> when it has a non-empty one, and
  \<^verbatim>\<open>auto\<close> when \<^verbatim>\<open>from\<close> is omitted (or empty). When the resolver, called with the
  text, \<open>src\<close> and the target, returns the translated text, the route answers 200 with
  \<^verbatim>\<open>translatedText\<close>, \<^verbatim>\<open>sourceLanguage\<close> = \<open>src\<close> and \<^verbatim>\<open>targetLanguage\<close>. The
  new store is the one \<^verbatim>\<open>createTranslation\<close> returns for the record of the source
  text, the translated text, \<open>src\<close> and the target: that record, with the next id and
  the creation time, is set under the next id, and on a store built by
  \<^verbatim>\<open>createTranslation\<close> calls it is appended.
\<close>

theorem translate_route_success:
  "body_text b = Some text \<Longrightarrow> text \<noteq> [] \<Longrightarrow> body_to b = Some to \<Longrightarrow> to \<noteq> [] \<Longrightarrow>
   (body_from b = Some src \<and> src \<noteq> [])
     \<or> ((body_from b = None \<or> body_from b = Some []) \<and> src = lit ''auto'') \<Longrightarrow>
   translateText w text src to = (Inr (JStr translated), tr) \<Longrightarrow>
     translate_route w now b s =
       (\<lparr>status = 200, json = JObj
           [(lit ''translatedText'', JStr translated),
            (lit ''sourceLanguage'', JStr src),
            (lit ''targetLanguage'', JStr to)]\<rparr>,
        \<lparr>translation_map =
           map_set (currentTranslationId s)
             \<lparr>sourceText = text, translatedText = JStr translated,
              sourceLanguage = src, targetLanguage = to,
              rec_id = currentTranslationId s, createdAt = now\<rparr>
             (translation_map s),
         currentTranslationId = currentTranslationId s + 1\<rparr>,
        tr)
   \<and> createTranslation
         \<lparr>sourceText = text, translatedText = JStr translated,
          sourceLanguage = src, targetLanguage = to\<rparr> now s =
       (\<lparr>sourceText = text, translatedText = JStr translated,
         sourceLanguage = src, targetLanguage = to,
         rec_id = currentTranslationId s, createdAt = now\<rparr>,
        fst (snd (translate_route w now b s)))
   \<and> (store_ok s \<longrightarrow>
        translation_map (fst (snd (translate_route w now b s))) =
          translation_map s @
            [(currentTranslationId s,
              \<lparr>sourceText = text, translatedText = JStr translated,
               sourceLanguage = src, targetLanguage = to,
               rec_id = currentTranslationId s, createdAt = now\<rparr>)])"
proof -
  assume b: "body_text b = Some text" "text \<noteq> []" "body_to b = Some to" "to \<noteq> []"
    and f: "(body_from b = Some src \<and> src \<noteq> [])
     \<or> ((body_from b = None \<or> body_from b = Some []) \<and> src = lit ''auto'')"
    and r: "translateText w text src to = (Inr (JStr translated), tr)"
  let ?rec = "\<lparr>sourceText = text, translatedText = JStr translated,
              sourceLanguage = src, targetLanguage = to,
              rec_id = currentTranslationId s, createdAt = now\<rparr>"
  let ?s' = "\<lparr>translation_map = map_set (currentTranslationId s) ?rec (translation_map s),
         currentTranslationId = currentTranslationId s + 1\<rparr>"
  have src: "from_or_auto (body_from b) = src"
    using f by (auto simp: from_or_auto_def)
  have c: "createTranslation
         \<lparr>sourceText = text, translatedText = JStr translated,
          sourceLanguage = src, targetLanguage = to\<rparr> now s = (?rec, ?s')"
    by (simp add: createTranslation_def Let_def insert_translation.extend_def
        translation.fields_def)
  have 1: "translate_route w now b s =
       (\<lparr>status = 200, json = JObj
           [(lit ''translatedText'', JStr translated),
            (lit ''sourceLanguage'', JStr src),
            (lit ''targetLanguage'', JStr to)]\<rparr>, ?s', tr)"
    using r by (simp add: translate_route_on_result[OF b, of w "JStr translated" tr] src c)
  have fresh: "store_ok s \<Longrightarrow> currentTranslationId s \<notin> fst ` set (translation_map s)"
    by (metis store_ok_def atLeastLessThan_iff less_irrefl set_map set_upt)
  have 3: "store_ok s \<longrightarrow> translation_map ?s' = translation_map s @ [(currentTranslationId s, ?rec)]"
    by (simp add: map_set_fresh[OF fresh])
  show ?thesis
    unfolding 1 using c 3 by simp
qed

text \<open>
  \<^verbatim>\<open>{text: "Hello", to: "es"}\<close> with only Lingva answering, \<^verbatim>\<open>"Hola"\<close>: the response is
  \<^verbatim>\<open>{translatedText: "Hola", sourceLanguage: "auto", targetLanguage: "es"}\<close> and
  \<^verbatim>\<open>GET /api/translations\<close> then lists the record. With \<^verbatim>\<open>from: "en"\<close> the response
  and the record carry \<^verbatim>\<open>en\<close>.
\<close>

theorem translate_route_success_witness:
  "translate_route (stub_runtime [lingva_hola]) 1000 hello_to_es new_storage =
     (\<lparr>status = 200, json = JObj
         [(lit ''translatedText'', JStr (lit ''Hola'')),
          (lit ''sourceLanguage'', JStr (lit ''auto'')),
          (lit ''targetLanguage'', JStr (lit ''es''))]\<rparr>,
      \<lparr>translation_map =
         [(1, \<lparr>sourceText = lit ''Hello'', translatedText = JStr (lit ''Hola''),
               sourceLanguage = lit ''auto'', targetLanguage = lit ''es'',
               rec_id = 1, createdAt = 1000\<rparr>)],
       currentTranslationId = 2\<rparr>,
      [(Microsoft, microsoft_request (lit ''none'') (lit ''Hello'') (lit ''auto'') (lit ''es'')),
       (Lingva, lingva_request (lit ''Hello'') (lit ''auto'') (lit ''es''))])
   \<and> map translatedText (translations_route
        (fst (snd (translate_route (stub_runtime [lingva_hola]) 1000 hello_to_es new_storage))))
      = [JStr (lit ''Hola'')]
   \<and> translate_route (stub_runtime [lingva_hola]) 1000 hello_en_to_es new_storage =
     (\<lparr>status = 200, json = JObj
         [(lit ''translatedText'', JStr (lit ''Hola'')),
          (lit ''sourceLanguage'', JStr (lit ''en'')),
          (lit ''targetLanguage'', JStr (lit ''es''))]\<rparr>,
      \<lparr>translation_map =
         [(1, \<lparr>sourceText = lit ''Hello'', translatedText = JStr (lit ''Hola''),
               sourceLanguage = lit ''en'', targetLanguage = lit ''es'',
               rec_id = 1, createdAt = 1000\<rparr>)],
       currentTranslationId = 2\<rparr>,
      [(Microsoft, microsoft_request (lit ''none'') (lit ''Hello'') (lit ''en'') (lit ''es'')),
       (Lingva, lingva_request (lit ''Hello'') (lit ''en'') (lit ''es''))])"
proof -
  let ?w = "stub_runtime [lingva_hola]"
  have r1: "translateText ?w (lit ''Hello'') (lit ''auto'') (lit ''es'')
      = (Inr (JStr (lit ''Hola'')),
         [(Microsoft, microsoft_request (lit ''none'') (lit ''Hello'') (lit ''auto'') (lit ''es'')),
          (Lingva, lingva_request (lit ''Hello'') (lit ''auto'') (lit ''es''))])"
    by (simp add: stub_defs resolver_defs lit_def)
  have r2: "translateText ?w (lit ''Hello'') (lit ''en'') (lit ''es'')
      = (Inr (JStr (lit ''Hola'')),
         [(Microsoft, microsoft_request (lit ''none'') (lit ''Hello'') (lit ''en'') (lit ''es'')),
          (Lingva, lingva_request (lit ''Hello'') (lit ''en'') (lit ''es''))])"
    by (simp add: stub_defs resolver_defs lit_def)
  have b1: "body_text hello_to_es = Some (lit ''Hello'')" "lit ''Hello'' \<noteq> []"
    "body_to hello_to_es = Some (lit ''es'')" "lit ''es'' \<noteq> []"
    by (simp_all add: hello_to_es_def lit_def)
  have f1: "(body_from hello_to_es = Some (lit ''auto'') \<and> lit ''auto'' \<noteq> [])
     \<or> ((body_from hello_to_es = None \<or> body_from hello_to_es = Some []) \<and> lit ''auto'' = lit ''auto'')"
    by (simp add: hello_to_es_def)
  have b2: "body_text hello_en_to_es = Some (lit ''Hello'')" "lit ''Hello'' \<noteq> []"
    "body_to hello_en_to_es = Some (lit ''es'')" "lit ''es'' \<noteq> []"
    by (simp_all add: hello_en_to_es_def lit_def)
  have f2: "(body_from hello_en_to_es = Some (lit ''en'') \<and> lit ''en'' \<noteq> [])
     \<or> ((body_from hello_en_to_es = None \<or> body_from hello_en_to_es = Some []) \<and> lit ''en'' = lit ''auto'')"
    by (simp add: hello_en_to_es_def lit_def)
  note t1 = translate_route_success[OF b1 f1 r1, of 1000 new_storage]
  note t2 = translate_route_success[OF b2 f2 r2, of 1000 new_storage]
  have e1: "translate_route ?w 1000 hello_to_es new_storage =
     (\<lparr>status = 200, json = JObj
         [(lit ''translatedText'', JStr (lit ''Hola'')),
          (lit ''sourceLanguage'', JStr (lit ''auto'')),
          (lit ''targetLanguage'', JStr (lit ''es''))]\<rparr>,
      \<lparr>translation_map =
         [(1, \<lparr>sourceText = lit ''Hello'', translatedText = JStr (lit ''Hola''),
               sourceLanguage = lit ''auto'', targetLanguage = lit ''es'',
               rec_id = 1, createdAt = 1000\<rparr>)],
       currentTranslationId = 2\<rparr>,
      [(Microsoft, microsoft_request (lit ''none'') (lit ''Hello'') (lit ''auto'') (lit ''es'')),
       (Lingva, lingva_request (lit ''Hello'') (lit ''auto'') (lit ''es''))])"
    using t1 by (simp add: new_storage_def)
  have g: "map translatedText (translations_route
        (fst (snd (translate_route ?w 1000 hello_to_es new_storage)))) = [JStr (lit ''Hola'')]"
    unfolding e1 by (simp add: translations_route_def store_defs)
  have e2: "translate_route ?w 1000 hello_en_to_es new_storage =
     (\<lparr>status = 200, json = JObj
         [(lit ''translatedText'', JStr (lit ''Hola'')),
          (lit ''sourceLanguage'', JStr (lit ''en'')),
          (lit ''targetLanguage'', JStr (lit ''es''))]\<rparr>,
      \<lparr>translation_map =
         [(1, \<lparr>sourceText = lit ''Hello'', translatedText = JStr (lit ''Hola''),
               sourceLanguage = lit ''en'', targetLanguage = lit ''es'',
               rec_id = 1, createdAt = 1000\<rparr>)],
       currentTranslationId = 2\<rparr>,
      [(Microsoft, microsoft_request (lit ''none'') (lit ''Hello'') (lit ''en'') (lit ''es'')),
       (Lingva, lingva_request (lit ''Hello'') (lit ''en'') (lit ''es''))])"
    using t2 by (simp add: new_storage_def)
  from e1 g e2 show ?thesis by simp
qed

section \<open>The resolver: which results are accepted\<close>

lemma get_prop_JStr_obj:
  "get_prop rd (lit ''translatedText'') = Some (JStr s) \<Longrightarrow> truthy rd"
  by (cases rd) (auto simp: lit_def split: if_splits list.splits)

text \<open>
  Claim C3. Take a MyMemory response that carries a translated text \<open>s\<close>
  (\<^verbatim>\<open>responseStatus\<close> 200 and a non-empty string \<^verbatim>\<open>responseData.translatedText\<close>).
  The attempt is a failure exactly when \<open>s\<close> and the input are equal after
  \<^verbatim>\<open>toLowerCase\<close>; otherwise it returns \<open>s\<close>. MyMemory is the last attempt, so when the
  three earlier ones gave nothing such a rejection makes the resolver fail. The earlier
  providers have no such rule: a Google, Microsoft or Lingva response that repeats the
  input text is accepted.
\<close>

theorem mymemory_rejects_untranslated:
  "get_prop data (lit ''responseStatus'') = Some (JNum 200) \<Longrightarrow>
   get_prop data (lit ''responseData'') = Some rd \<Longrightarrow>
   get_prop rd (lit ''translatedText'') = Some (JStr s) \<Longrightarrow> s \<noteq> [] \<Longrightarrow>
     (mymemory_extract w text data = None \<longleftrightarrow> toLowerCase w s = toLowerCase w text)
   \<and> (toLowerCase w s \<noteq> toLowerCase w text \<longrightarrow>
        mymemory_extract w text data = Some (JStr s))
   \<and> (toLowerCase w s = toLowerCase w text
        \<and> fst (google_attempt w text from to) = None
        \<and> fst (microsoft_attempt w text from to) = None
        \<and> fst (lingva_attempt w text from to) = None
        \<and> encodeURIComponent w text = Some encoded
        \<and> fetch w (mymemory_request encoded from to) = Response True (Some data) \<longrightarrow>
        fst (translateText w text from to) = Inl AllTranslationServicesFailed)
   \<and> google_extract (JObj [(lit ''data'', JObj [(lit ''translations'',
          JArr [JObj [(lit ''translatedText'', JStr text)]])])]) = Some (JStr text)
   \<and> microsoft_extract (JArr [JObj [(lit ''translations'',
          JArr [JObj [(lit ''text'', JStr text)]])]]) = Some (JStr text)
   \<and> (text \<noteq> [] \<longrightarrow>
        lingva_extract (JObj [(lit ''translation'', JStr text)]) = Some (JStr text))"
proof -
  assume st: "get_prop data (lit ''responseStatus'') = Some (JNum 200)"
    and rd: "get_prop data (lit ''responseData'') = Some rd"
    and tt: "get_prop rd (lit ''translatedText'') = Some (JStr s)"
    and ne: "s \<noteq> []"
  have trd: "truthy rd" using tt by (rule get_prop_JStr_obj)
  have ex: "mymemory_extract w text data =
      (if toLowerCase w s \<noteq> toLowerCase w text then Some (JStr s) else None)"
    by (simp add: mymemory_extract_def st rd tt trd ne)
  have 1: "mymemory_extract w text data = None \<longleftrightarrow> toLowerCase w s = toLowerCase w text"
    by (simp add: ex)
  have 2: "toLowerCase w s \<noteq> toLowerCase w text \<longrightarrow>
        mymemory_extract w text data = Some (JStr s)"
    by (simp add: ex)
  have 3: "toLowerCase w s = toLowerCase w text
        \<and> fst (google_attempt w text from to) = None
        \<and> fst (microsoft_attempt w text from to) = None
        \<and> fst (lingva_attempt w text from to) = None
        \<and> encodeURIComponent w text = Some encoded
        \<and> fetch w (mymemory_request encoded from to) = Response True (Some data) \<longrightarrow>
        fst (translateText w text from to) = Inl AllTranslationServicesFailed"
    by (simp add: translateText_alt mymemory_attempt_def try_fetch_def ex Let_def)
  have 4: "google_extract (JObj [(lit ''data'', JObj [(lit ''translations'',
          JArr [JObj [(lit ''translatedText'', JStr text)]])])]) = Some (JStr text)"
    by (simp add: google_extract_def)
  have 5: "microsoft_extract (JArr [JObj [(lit ''translations'',
          JArr [JObj [(lit ''text'', JStr text)]])]]) = Some (JStr text)"
    by (simp add: microsoft_extract_def)
  have 6: "text \<noteq> [] \<longrightarrow>
        lingva_extract (JObj [(lit ''translation'', JStr text)]) = Some (JStr text)"
    by (simp add: lingva_extract_def)
  from 1 2 3 4 5 6 show ?thesis by blast
qed

text \<open>
  MyMemory answering \<^verbatim>\<open>"HELLO"\<close>: the input \<^verbatim>\<open>"Hello"\<close> fails overall, the input
  \<^verbatim>\<open>"Bye"\<close> gets \<^verbatim>\<open>"HELLO"\<close>. Lingva answering \<^verbatim>\<open>"Hello"\<close> to \<^verbatim>\<open>"Hello"\<close> is
  accepted.
\<close>

theorem mymemory_rejects_untranslated_witness:
  "toLowerCase (stub_runtime [mymemory_upper]) (lit ''HELLO'')
      = toLowerCase (stub_runtime [mymemory_upper]) (lit ''Hello'')
   \<and> fst (translateText (stub_runtime [mymemory_upper]) (lit ''Hello'') (lit ''auto'') (lit ''es''))
      = Inl AllTranslationServicesFailed
   \<and> fst (translateText (stub_runtime [mymemory_upper]) (lit ''Bye'') (lit ''auto'') (lit ''es''))
      = Inr (JStr (lit ''HELLO''))
   \<and> fst (translateText (stub_runtime [lingva_echo]) (lit ''Hello'') (lit ''auto'') (lit ''es''))
      = Inr (JStr (lit ''Hello''))"
proof -
  let ?w = "stub_runtime [mymemory_upper]"
  let ?data = "JObj [(lit ''responseStatus'', JNum 200),
         (lit ''responseData'', JObj [(lit ''translatedText'', JStr (lit ''HELLO''))])]"
  have h: "get_prop ?data (lit ''responseStatus'') = Some (JNum 200)"
    "get_prop ?data (lit ''responseData'') = Some (JObj [(lit ''translatedText'', JStr (lit ''HELLO''))])"
    "get_prop (JObj [(lit ''translatedText'', JStr (lit ''HELLO''))]) (lit ''translatedText'')
       = Some (JStr (lit ''HELLO''))"
    "lit ''HELLO'' \<noteq> []"
    by (simp_all add: lit_def)
  have low: "toLowerCase ?w (lit ''HELLO'') = toLowerCase ?w (lit ''Hello'')"
    by (simp add: stub_defs lit_def)
  have pre: "fst (google_attempt ?w (lit ''Hello'') (lit ''auto'') (lit ''es'')) = None"
    "fst (microsoft_attempt ?w (lit ''Hello'') (lit ''auto'') (lit ''es'')) = None"
    "fst (lingva_attempt ?w (lit ''Hello'') (lit ''auto'') (lit ''es'')) = None"
    "encodeURIComponent ?w (lit ''Hello'') = Some (lit ''Hello'')"
    "fetch ?w (mymemory_request (lit ''Hello'') (lit ''auto'') (lit ''es''))
       = Response True (Some ?data)"
    by (simp_all add: stub_defs resolver_defs lit_def)
  have other: "fst (translateText ?w (lit ''Bye'') (lit ''auto'') (lit ''es''))
      = Inr (JStr (lit ''HELLO''))"
    by (simp add: stub_defs resolver_defs lit_def)
  have echo: "fst (translateText (stub_runtime [lingva_echo]) (lit ''Hello'') (lit ''auto'') (lit ''es''))
      = Inr (JStr (lit ''Hello''))"
    by (simp add: stub_defs resolver_defs lit_def)
  from mymemory_rejects_untranslated[OF h, of ?w "lit ''Hello''" "lit ''auto''" "lit ''es''" "lit ''Hello''"]
    low pre other echo
  show ?thesis by simp
qed

text \<open>
  The two keyless attempts test the value they return; the two keyed ones do not (see
  \<open>google_extract\<close> and \<open>microsoft_extract\<close>).
\<close>

lemma lingva_result_truthy:
  "fst (lingva_attempt w text from to) = Some v \<Longrightarrow> truthy v"
  by (auto simp: lingva_attempt_def lingva_extract_def try_fetch_def Let_def
      split: option.splits fetch_result.splits if_splits)

lemma mymemory_result_nonempty_string:
  "fst (mymemory_attempt w text from to) = Some v \<Longrightarrow> \<exists>s. v = JStr s \<and> s \<noteq> []"
  by (auto simp: mymemory_attempt_def mymemory_extract_def try_fetch_def Let_def
      split: option.splits fetch_result.splits if_splits jsval.splits)

text \<open>When no attempt returns, the resolver raises and the route answers 500, the store untouched.\<close>

lemma all_attempts_fail:
  "fst (google_attempt w text from to) = None \<Longrightarrow>
   fst (microsoft_attempt w text from to) = None \<Longrightarrow>
   fst (lingva_attempt w text from to) = None \<Longrightarrow>
   fst (mymemory_attempt w text from to) = None \<Longrightarrow>
     fst (translateText w text from to) = Inl AllTranslationServicesFailed"
  by (simp add: translateText_alt)

lemma resolver_error_answers_500:
  "body_text b = Some text \<Longrightarrow> text \<noteq> [] \<Longrightarrow> body_to b = Some to \<Longrightarrow> to \<noteq> [] \<Longrightarrow>
   translateText w text (from_or_auto (body_from b)) to = (Inl e, tr) \<Longrightarrow>
     translate_route w now b s = (translation_failed, s, tr)"
  by (simp add: translate_route_def)

text \<open>
  Claim C1, at its failing input. No key is configured. Microsoft answers 200 with
  \<^verbatim>\<open>[{"translations": [{}]}]\<close>, a response without the translation field \<^verbatim>\<open>text\<close>:
  the resolver returns \<^verbatim>\<open>undefined\<close> and stops, although Lingva would have answered
  \<^verbatim>\<open>"Hola"\<close>. When Microsoft answers \<^verbatim>\<open>[{"translations": [{"text": ""}]}]\<close> the
  resolver returns the empty string. In both runs only the Microsoft request is sent.
\<close>

theorem translateText_returns_unchecked_field:
  "translateText (stub_runtime [microsoft_without_text, lingva_hola])
       (lit ''Hello'') (lit ''auto'') (lit ''es'')
     = (Inr JUndefined,
        [(Microsoft, microsoft_request (lit ''none'') (lit ''Hello'') (lit ''auto'') (lit ''es''))])
   \<and> translateText (stub_runtime [microsoft_empty_text, lingva_hola])
       (lit ''Hello'') (lit ''auto'') (lit ''es'')
     = (Inr (JStr []),
        [(Microsoft, microsoft_request (lit ''none'') (lit ''Hello'') (lit ''auto'') (lit ''es''))])
   \<and> fst (translateText (stub_runtime [lingva_hola]) (lit ''Hello'') (lit ''auto'') (lit ''es''))
     = Inr (JStr (lit ''Hola''))"
  by (simp add: stub_defs resolver_defs lit_def)

text \<open>
  Claim C2, at its failing input. No key is configured, Microsoft answers 200 with
  \<^verbatim>\<open>[{"translations": [{}]}]\<close> and every other provider is down. The one attempt made
  got a response without its translation field, yet the route answers 200, with
  \<^verbatim>\<open>translatedText\<close> undefined, and stores a record.
\<close>

theorem translate_route_200_without_translation:
  "translate_route (stub_runtime [microsoft_without_text]) 1000 hello_to_es new_storage =
     (\<lparr>status = 200, json = JObj
         [(lit ''translatedText'', JUndefined),
          (lit ''sourceLanguage'', JStr (lit ''auto'')),
          (lit ''targetLanguage'', JStr (lit ''es''))]\<rparr>,
      \<lparr>translation_map =
         [(1, \<lparr>sourceText = lit ''Hello'', translatedText = JUndefined,
               sourceLanguage = lit ''auto'', targetLanguage = lit ''es'',
               rec_id = 1, createdAt = 1000\<rparr>)],
       currentTranslationId = 2\<rparr>,
      [(Microsoft, microsoft_request (lit ''none'') (lit ''Hello'') (lit ''auto'') (lit ''es''))])"
proof -
  have r: "translateText (stub_runtime [microsoft_without_text]) (lit ''Hello'') (lit ''auto'') (lit ''es'')
     = (Inr JUndefined,
        [(Microsoft, microsoft_request (lit ''none'') (lit ''Hello'') (lit ''auto'') (lit ''es''))])"
    by (simp add: stub_defs resolver_defs lit_def)
  have b: "body_text hello_to_es = Some (lit ''Hello'')" "body_to hello_to_es = Some (lit ''es'')"
    "lit ''Hello'' \<noteq> []" "lit ''es'' \<noteq> []" "from_or_auto (body_from hello_to_es) = lit ''auto''"
    by (simp_all add: hello_to_es_def lit_def from_or_auto_def)
  show ?thesis
    by (simp add: translate_route_def r b createTranslation_def new_storage_def
        insert_translation.extend_def translation.fields_def Let_def)
qed

end
